theory Spec2Isabelle
  imports Main "HOL-Library.Sublist"
begin

section \<open>Text primitives\<close>

text \<open>
  Annotation text and program text are character lists. The model reads them as ASCII
  text: the white space of \<^verbatim>\<open>\s\<close> and of \<^verbatim>\<open>trim\<close> is tab, line feed,
  vertical tab, form feed, carriage return and space; the line terminators that
  \<^verbatim>\<open>.\<close> refuses are line feed and carriage return; a word character
  (\<^verbatim>\<open>\w\<close>) is a letter, a digit or the underscore; case conversion moves the
  twenty-six letters and leaves every other character alone.
\<close>

definition isSpace :: "char \<Rightarrow> bool" where
  "isSpace c \<longleftrightarrow>
     c = CHR 0x09 \<or> c = CHR 0x0A \<or> c = CHR 0x0B \<or> c = CHR 0x0C \<or> c = CHR 0x0D \<or> c = CHR '' ''"

definition isLineTerminator :: "char \<Rightarrow> bool" where
  "isLineTerminator c \<longleftrightarrow> c = CHR 0x0A \<or> c = CHR 0x0D"

definition isDigit :: "char \<Rightarrow> bool" where
  "isDigit c \<longleftrightarrow> (48::nat) \<le> of_char c \<and> of_char c \<le> (57::nat)"

definition isUpper :: "char \<Rightarrow> bool" where
  "isUpper c \<longleftrightarrow> (65::nat) \<le> of_char c \<and> of_char c \<le> (90::nat)"

definition isLower :: "char \<Rightarrow> bool" where
  "isLower c \<longleftrightarrow> (97::nat) \<le> of_char c \<and> of_char c \<le> (122::nat)"

definition isWordChar :: "char \<Rightarrow> bool" where
  "isWordChar c \<longleftrightarrow> isUpper c \<or> isLower c \<or> isDigit c \<or> c = CHR ''_''"

definition isHexDigit :: "char \<Rightarrow> bool" where
  "isHexDigit c \<longleftrightarrow> isDigit c
     \<or> ((65::nat) \<le> of_char c \<and> of_char c \<le> (70::nat))
     \<or> ((97::nat) \<le> of_char c \<and> of_char c \<le> (102::nat))"

definition lowerChar :: "char \<Rightarrow> char" where
  "lowerChar c = (if isUpper c then char_of (of_char c + (32::nat)) else c)"

definition upperChar :: "char \<Rightarrow> char" where
  "upperChar c = (if isLower c then char_of (of_char c - (32::nat)) else c)"

definition toLowerCase :: "string \<Rightarrow> string" where
  "toLowerCase s = map lowerChar s"

definition toUpperCase :: "string \<Rightarrow> string" where
  "toUpperCase s = map upperChar s"

text \<open>\<^verbatim>\<open>s.includes(sub)\<close>: \<open>sub\<close> occurs in \<open>s\<close> as a contiguous run.\<close>

fun str_includes :: "string \<Rightarrow> string \<Rightarrow> bool" where
  "str_includes [] sub = (sub = [])"
| "str_includes (c # cs) sub = (prefix sub (c # cs) \<or> str_includes cs sub)"

definition startsWith :: "string \<Rightarrow> string \<Rightarrow> bool" where
  "startsWith s p = prefix p s"

definition endsWith :: "string \<Rightarrow> string \<Rightarrow> bool" where
  "endsWith s p = suffix p s"

definition trim :: "string \<Rightarrow> string" where
  "trim s = rev (dropWhile isSpace (rev (dropWhile isSpace s)))"

text \<open>\<^verbatim>\<open>s.replace(/^p/, '')\<close> and \<^verbatim>\<open>s.replace(/p$/, '')\<close> for a literal \<open>p\<close>.\<close>

definition stripPrefix :: "string \<Rightarrow> string \<Rightarrow> string" where
  "stripPrefix p s = (if prefix p s then drop (length p) s else s)"

definition stripSuffix :: "string \<Rightarrow> string \<Rightarrow> string" where
  "stripSuffix p s = (if suffix p s then take (length s - length p) s else s)"

text \<open>\<^verbatim>\<open>s.split(c)\<close> for a one-character separator: the empty text gives one empty piece.\<close>

fun split_on :: "char \<Rightarrow> string \<Rightarrow> string list" where
  "split_on c [] = [[]]"
| "split_on c (x # xs) =
     (if x = c then [] # split_on c xs
      else (case split_on c xs of [] \<Rightarrow> [[x]] | y # ys \<Rightarrow> (x # y) # ys))"

text \<open>
  \<^verbatim>\<open>s.split(/\s+/)\<close>: the pieces between maximal runs of white space; a run at the
  start or at the end leaves an empty piece there.
\<close>

fun split_ws_from :: "string \<Rightarrow> bool \<Rightarrow> string \<Rightarrow> string list" where
  "split_ws_from cur inrun [] = [rev cur]"
| "split_ws_from cur inrun (c # cs) =
     (if isSpace c then (if inrun then split_ws_from cur True cs
                         else rev cur # split_ws_from [] True cs)
      else split_ws_from (c # cur) False cs)"

definition split_ws :: "string \<Rightarrow> string list" where
  "split_ws s = split_ws_from [] False s"

text \<open>\<^verbatim>\<open>[...new Set(xs)]\<close>: duplicates removed, the first occurrence of each kept in place.\<close>

fun dedupe :: "'a list \<Rightarrow> 'a list" where
  "dedupe [] = []"
| "dedupe (x # xs) = x # dedupe (filter (\<lambda>y. y \<noteq> x) xs)"

subsection \<open>Regular expressions, by backtracking\<close>

text \<open>
  A greedy quantifier over a character class tries the longest run first and gives
  characters back one at a time; \<open>greedy p lo s\<close> lists the ways to cut \<open>s\<close> into a
  run of at least \<open>lo\<close> characters of class \<open>p\<close> and a rest, longest run first. A lazy
  quantifier lists them shortest first. \<open>first_match\<close> takes the first cut for which
  the rest of the pattern succeeds, so a failure further right makes the quantifier try
  its next cut, as the backtracking matcher of the language does.
\<close>

definition greedy :: "(char \<Rightarrow> bool) \<Rightarrow> nat \<Rightarrow> string \<Rightarrow> (string \<times> string) list" where
  "greedy p lo s = map (\<lambda>k. (take k s, drop k s)) (rev [lo ..< Suc (length (takeWhile p s))])"

definition lazy :: "(char \<Rightarrow> bool) \<Rightarrow> nat \<Rightarrow> string \<Rightarrow> (string \<times> string) list" where
  "lazy p lo s = map (\<lambda>k. (take k s, drop k s)) [lo ..< Suc (length (takeWhile p s))]"

fun first_match :: "('a \<Rightarrow> 'b option) \<Rightarrow> 'a list \<Rightarrow> 'b option" where
  "first_match f [] = None"
| "first_match f (x # xs) = (case f x of Some y \<Rightarrow> Some y | None \<Rightarrow> first_match f xs)"

text \<open>A literal in a pattern: the rest after it, when the text starts with it.\<close>

definition lit :: "string \<Rightarrow> string \<Rightarrow> string option" where
  "lit p s = (if prefix p s then Some (drop (length p) s) else None)"

text \<open>
  The pieces of a pattern, each taking what the rest of the pattern does with the group it
  matched and the text left: a literal, a greedy class, a lazy class, one character of a
  class, the end of the text.
\<close>

definition rx_lit :: "string \<Rightarrow> string \<Rightarrow> (string \<Rightarrow> 'a option) \<Rightarrow> 'a option" where
  "rx_lit p s k = (case lit p s of None \<Rightarrow> None | Some r \<Rightarrow> k r)"

definition rx_greedy ::
  "(char \<Rightarrow> bool) \<Rightarrow> nat \<Rightarrow> string \<Rightarrow> (string \<Rightarrow> string \<Rightarrow> 'a option) \<Rightarrow> 'a option" where
  "rx_greedy p lo s k = first_match (\<lambda>(g, r). k g r) (greedy p lo s)"

definition rx_lazy ::
  "(char \<Rightarrow> bool) \<Rightarrow> nat \<Rightarrow> string \<Rightarrow> (string \<Rightarrow> string \<Rightarrow> 'a option) \<Rightarrow> 'a option" where
  "rx_lazy p lo s k = first_match (\<lambda>(g, r). k g r) (lazy p lo s)"

definition rx_char :: "(char \<Rightarrow> bool) \<Rightarrow> string \<Rightarrow> (string \<Rightarrow> 'a option) \<Rightarrow> 'a option" where
  "rx_char p s k = (case s of [] \<Rightarrow> None | c # r \<Rightarrow> if p c then k r else None)"

definition rx_end :: "string \<Rightarrow> 'a \<Rightarrow> 'a option" where
  "rx_end s x = (if s = [] then Some x else None)"

definition notLineTerminator :: "char \<Rightarrow> bool" where
  "notLineTerminator c \<longleftrightarrow> \<not> isLineTerminator c"

text \<open>
  An unanchored pattern is tried at each offset from the left; \<open>search m i s\<close> gives the
  offset of the leftmost match (counted from \<open>i\<close>) and what the matcher \<open>m\<close> returned.
\<close>

fun search :: "(string \<Rightarrow> 'a option) \<Rightarrow> nat \<Rightarrow> string \<Rightarrow> (nat \<times> 'a) option" where
  "search m i [] = (case m [] of Some r \<Rightarrow> Some (i, r) | None \<Rightarrow> None)"
| "search m i (c # cs) =
     (case m (c # cs) of Some r \<Rightarrow> Some (i, r) | None \<Rightarrow> search m (Suc i) cs)"

text \<open>
  A global pattern (\<^verbatim>\<open>/.../g\<close>) in an \<^verbatim>\<open>exec\<close> loop: the matcher returns what
  the loop collects and the length of the match, and the scan resumes after the match.
  \<open>skip\<close> counts the characters of the last match still to be passed over.
\<close>

fun exec_all :: "(string \<Rightarrow> ('a \<times> nat) option) \<Rightarrow> nat \<Rightarrow> string \<Rightarrow> 'a list" where
  "exec_all m skip [] = []"
| "exec_all m skip (c # cs) =
     (if 0 < skip then exec_all m (skip - 1) cs
      else (case m (c # cs) of
              Some (g, n) \<Rightarrow> g # exec_all m (n - 1) cs
            | None \<Rightarrow> exec_all m 0 cs))"

text \<open>\<^verbatim>\<open>s.replace(/.../g, '')\<close>: every match, found the same way, is cut out.\<close>

fun remove_all :: "(string \<Rightarrow> nat option) \<Rightarrow> nat \<Rightarrow> string \<Rightarrow> string" where
  "remove_all m skip [] = []"
| "remove_all m skip (c # cs) =
     (if 0 < skip then remove_all m (skip - 1) cs
      else (case m (c # cs) of
              Some n \<Rightarrow> remove_all m (n - 1) cs
            | None \<Rightarrow> c # remove_all m 0 cs))"

section \<open>The data model (types.ts)\<close>

datatype SpecTag =
    Tag_invariant | Tag_pre | Tag_requires | Tag_post | Tag_ensures
  | Tag_state | Tag_access | Tag_calls | Tag_temporal | Tag_opnet

datatype VerificationStatus = VERIFIED | UNVERIFIED | VIOLATED | MISSING

text \<open>
  An annotation object. \<open>srcfile\<close> is the field \<^verbatim>\<open>file\<close>. \<open>objectId\<close> is not a field
  of the source: it stands for the identity of the object, which the verifier reads when
  it compares two specs with \<^verbatim>\<open>===\<close>. A spec built from an annotation by
  \<^verbatim>\<open>{...ann, ...}\<close> is the one object made from that annotation and keeps its
  \<open>objectId\<close>.
\<close>

record SpecAnnotation =
  objectId :: nat
  tag :: SpecTag
  expression :: string
  comment :: "string option"
  srcfile :: string
  line :: nat
  column :: nat

record InvariantSpec = SpecAnnotation +
  fieldReferences :: "string list"

record PreconditionSpec = SpecAnnotation +
  methodName :: string

record PostconditionSpec = SpecAnnotation +
  methodName :: string
  isCEI :: bool
  oldReferences :: "string list"
  fieldReferences :: "string list"

record StateTransition =
  fromState :: string
  toState :: string
  methods :: "string list"
  condition :: "string option"

record StateSpec = SpecAnnotation +
  transition :: StateTransition

record AccessSpec = SpecAnnotation +
  level :: string
  methodName :: string

record CallsSpec = SpecAnnotation +
  target :: string
  calledMethod :: string
  expectation :: string
  methodName :: string

record TemporalSpec = SpecAnnotation +
  subject :: string
  condition :: string

record OpnetSpec = SpecAnnotation +
  constraint :: string

record MethodSpecs =
  methodName :: string
  preconditions :: "PreconditionSpec list"
  postconditions :: "PostconditionSpec list"
  access :: "AccessSpec option"
  calls :: "CallsSpec list"
  stateTransitions :: "StateSpec list"
  temporal :: "TemporalSpec list"

text \<open>
  \<open>methods\<close> is a \<^verbatim>\<open>Map\<close>: its entries in insertion order, as the loops of the
  verifier visit them.
\<close>

record ContractSpecs =
  className :: string
  srcfile :: string
  invariants :: "InvariantSpec list"
  stateTransitions :: "StateSpec list"
  opnetConstraints :: "OpnetSpec list"
  methods :: "(string \<times> MethodSpecs) list"

text \<open>
  A result holds its spec at the declared type \<^verbatim>\<open>SpecAnnotation\<close>. The fields
  \<^verbatim>\<open>message\<close> and \<^verbatim>\<open>details\<close> are display text that no check reads back;
  the model leaves them out.
\<close>

record VerificationResult =
  spec :: SpecAnnotation
  status :: VerificationStatus
  srcfile :: string
  line :: nat

record Summary =
  verified :: nat
  unverified :: nat
  violated :: nat
  missing :: nat
  total :: nat

record VerificationReport =
  contractName :: string
  srcfile :: string
  results :: "VerificationResult list"
  summary :: Summary

section \<open>The tag grammar (spec-parser.ts)\<close>

text \<open>\<^verbatim>\<open>/this\.(\w+)\.value/\<close> at the start of a text: the field name and the length matched.\<close>

definition re_this_value :: "string \<Rightarrow> (string \<times> nat) option" where
  "re_this_value s =
     rx_lit ''this.'' s (\<lambda>r.
     rx_greedy isWordChar 1 r (\<lambda>w r.
     rx_lit ''.value'' r (\<lambda>r. Some (w, 5 + length w + 6))))"

definition extractFieldReferences :: "string \<Rightarrow> string list" where
  "extractFieldReferences expr = dedupe (exec_all re_this_value 0 expr)"

text \<open>\<^verbatim>\<open>/old\(([^)]+)\)/\<close> at the start of a text: the trimmed group and the length matched.\<close>

definition re_old :: "string \<Rightarrow> (string \<times> nat) option" where
  "re_old s =
     rx_lit ''old('' s (\<lambda>r.
     rx_greedy (\<lambda>c. c \<noteq> CHR '')'') 1 r (\<lambda>g r.
     rx_lit '')'' r (\<lambda>r. Some (trim g, 4 + length g + 1))))"

definition extractOldReferences :: "string \<Rightarrow> string list" where
  "extractOldReferences expr = exec_all re_old 0 expr"

text \<open>
  \<^verbatim>\<open>/^([^\->]+)\s*->\s*([^:]+):\s*(.+)$/\<close> on the whole text: the three groups.
\<close>

definition mainRe :: "string \<Rightarrow> (string \<times> string \<times> string) option" where
  "mainRe s =
     rx_greedy (\<lambda>c. c \<noteq> CHR ''-'' \<and> c \<noteq> CHR ''>'') 1 s (\<lambda>g1 r.
     rx_greedy isSpace 0 r (\<lambda>w r.
     rx_lit ''->'' r (\<lambda>r.
     rx_greedy isSpace 0 r (\<lambda>w r.
     rx_greedy (\<lambda>c. c \<noteq> CHR '':'') 1 r (\<lambda>g2 r.
     rx_lit '':'' r (\<lambda>r.
     rx_greedy isSpace 0 r (\<lambda>w r.
     rx_greedy notLineTerminator 1 r (\<lambda>g3 r.
     rx_end r (g1, g2, g3)))))))))"

text \<open>\<^verbatim>\<open>/\[when\s+(.+)\]$/\<close> at the start of a text: the group.\<close>

definition condRe :: "string \<Rightarrow> string option" where
  "condRe s =
     rx_lit ''[when'' s (\<lambda>r.
     rx_greedy isSpace 1 r (\<lambda>w r.
     rx_greedy notLineTerminator 1 r (\<lambda>g r.
     rx_lit '']'' r (\<lambda>r.
     rx_end r g))))"

definition parseStateTransition :: "string \<Rightarrow> StateTransition" where
  "parseStateTransition expr =
     (case mainRe (trim expr) of
        None \<Rightarrow> \<lparr> fromState = ''?'', toState = ''?'', methods = [],
                  StateTransition.condition = Some (trim expr) \<rparr>
      | Some (g1, g2, g3) \<Rightarrow>
          (let rest = trim g3;
               condMatch = search condRe 0 rest;
               cond = (case condMatch of None \<Rightarrow> None | Some (i, g) \<Rightarrow> Some (trim g));
               rest' = (case condMatch of None \<Rightarrow> rest | Some (i, g) \<Rightarrow> trim (take i rest))
           in \<lparr> fromState = trim g1, toState = trim g2,
                methods = filter (\<lambda>m. m \<noteq> [])
                            (map (\<lambda>m. stripSuffix ''()'' (trim m)) (split_on CHR '','' rest')),
                StateTransition.condition = cond \<rparr>))"

text \<open>
  \<^verbatim>\<open>/^(.+?)\s*:\s*(.+?)\s*->\s*(.+)$/\<close> on the whole text: the three groups. The
  first two groups are lazy.
\<close>

definition callsRe :: "string \<Rightarrow> (string \<times> string \<times> string) option" where
  "callsRe s =
     rx_lazy notLineTerminator 1 s (\<lambda>g1 r.
     rx_greedy isSpace 0 r (\<lambda>w r.
     rx_lit '':'' r (\<lambda>r.
     rx_greedy isSpace 0 r (\<lambda>w r.
     rx_lazy notLineTerminator 1 r (\<lambda>g2 r.
     rx_greedy isSpace 0 r (\<lambda>w r.
     rx_lit ''->'' r (\<lambda>r.
     rx_greedy isSpace 0 r (\<lambda>w r.
     rx_greedy notLineTerminator 1 r (\<lambda>g3 r.
     rx_end r (g1, g2, g3))))))))))"

definition parseCallsSpec ::
  "string \<Rightarrow> string \<Rightarrow> nat \<Rightarrow> string \<Rightarrow> nat \<Rightarrow> nat \<Rightarrow> string option \<Rightarrow> CallsSpec" where
  "parseCallsSpec expr mname oid fl ln col cmt =
     (case callsRe (trim expr) of
        None \<Rightarrow>
          \<lparr> objectId = oid, tag = Tag_calls, expression = expr, comment = cmt,
            SpecAnnotation.srcfile = fl, SpecAnnotation.line = ln, column = col,
            target = trim expr, calledMethod = [], expectation = [],
            CallsSpec.methodName = mname \<rparr>
      | Some (g1, g2, g3) \<Rightarrow>
          \<lparr> objectId = oid, tag = Tag_calls, expression = expr, comment = cmt,
            SpecAnnotation.srcfile = fl, SpecAnnotation.line = ln, column = col,
            target = trim g1, calledMethod = trim g2, expectation = trim g3,
            CallsSpec.methodName = mname \<rparr>)"

text \<open>
  \<open>buildMethodSpecs\<close>: the bundle starts empty and each annotation is pushed into the
  list of its tag; an \<^verbatim>\<open>access\<close> annotation replaces the one before it; the tags
  \<^verbatim>\<open>invariant\<close> and \<^verbatim>\<open>opnet\<close> have no case and change nothing.
\<close>

definition mkPrecondition :: "string \<Rightarrow> SpecAnnotation \<Rightarrow> PreconditionSpec" where
  "mkPrecondition mname ann =
     SpecAnnotation.extend ann \<lparr> PreconditionSpec.methodName = mname \<rparr>"

definition mkPost :: "string \<Rightarrow> SpecAnnotation \<Rightarrow> PostconditionSpec" where
  "mkPost mname ann =
     SpecAnnotation.extend (ann \<lparr> tag := Tag_post \<rparr>)
       \<lparr> PostconditionSpec.methodName = mname, isCEI = False,
         oldReferences = extractOldReferences (expression ann),
         PostconditionSpec.fieldReferences = extractFieldReferences (expression ann) \<rparr>"

definition mkEnsures :: "string \<Rightarrow> SpecAnnotation \<Rightarrow> PostconditionSpec" where
  "mkEnsures mname ann =
     (let cei = (toUpperCase (trim (expression ann)) = ''CEI'')
      in SpecAnnotation.extend (ann \<lparr> tag := Tag_ensures \<rparr>)
           \<lparr> PostconditionSpec.methodName = mname, isCEI = cei,
             oldReferences = (if cei then [] else extractOldReferences (expression ann)),
             PostconditionSpec.fieldReferences =
               (if cei then [] else extractFieldReferences (expression ann)) \<rparr>)"

definition mkAccess :: "string \<Rightarrow> SpecAnnotation \<Rightarrow> AccessSpec" where
  "mkAccess mname ann =
     SpecAnnotation.extend (ann \<lparr> tag := Tag_access \<rparr>)
       \<lparr> level = trim (expression ann), AccessSpec.methodName = mname \<rparr>"

definition mkState :: "SpecAnnotation \<Rightarrow> StateSpec" where
  "mkState ann =
     SpecAnnotation.extend (ann \<lparr> tag := Tag_state \<rparr>)
       \<lparr> transition = parseStateTransition (expression ann) \<rparr>"

definition mkTemporal :: "SpecAnnotation \<Rightarrow> TemporalSpec" where
  "mkTemporal ann =
     SpecAnnotation.extend (ann \<lparr> tag := Tag_temporal \<rparr>)
       \<lparr> subject = (case split_ws (expression ann) of [] \<Rightarrow> [] | w # ws \<Rightarrow> w),
         TemporalSpec.condition = expression ann \<rparr>"

definition addAnnotation :: "string \<Rightarrow> MethodSpecs \<Rightarrow> SpecAnnotation \<Rightarrow> MethodSpecs" where
  "addAnnotation mname specs ann =
     (case tag ann of
        Tag_pre \<Rightarrow> specs \<lparr> preconditions := preconditions specs @ [mkPrecondition mname ann] \<rparr>
      | Tag_requires \<Rightarrow>
          specs \<lparr> preconditions := preconditions specs @ [mkPrecondition mname ann] \<rparr>
      | Tag_post \<Rightarrow> specs \<lparr> postconditions := postconditions specs @ [mkPost mname ann] \<rparr>
      | Tag_ensures \<Rightarrow> specs \<lparr> postconditions := postconditions specs @ [mkEnsures mname ann] \<rparr>
      | Tag_access \<Rightarrow> specs \<lparr> access := Some (mkAccess mname ann) \<rparr>
      | Tag_calls \<Rightarrow>
          specs \<lparr> calls := calls specs @
            [parseCallsSpec (expression ann) mname (objectId ann) (SpecAnnotation.srcfile ann)
               (SpecAnnotation.line ann) (column ann) (comment ann)] \<rparr>
      | Tag_state \<Rightarrow>
          specs \<lparr> MethodSpecs.stateTransitions := MethodSpecs.stateTransitions specs @ [mkState ann] \<rparr>
      | Tag_temporal \<Rightarrow> specs \<lparr> temporal := temporal specs @ [mkTemporal ann] \<rparr>
      | Tag_invariant \<Rightarrow> specs
      | Tag_opnet \<Rightarrow> specs)"

definition buildMethodSpecs :: "string \<Rightarrow> SpecAnnotation list \<Rightarrow> string \<Rightarrow> MethodSpecs" where
  "buildMethodSpecs mname annotations fileName =
     foldl (addAnnotation mname)
       \<lparr> MethodSpecs.methodName = mname, preconditions = [], postconditions = [],
         access = None, calls = [], MethodSpecs.stateTransitions = [], temporal = [] \<rparr>
       annotations"

section \<open>The syntax tree and the evidence extractors (ast-utils.ts)\<close>

text \<open>
  The syntax tree comes from the compiler library; the model keeps of each node what the
  verifier asks of it: where it starts (\<open>getStart\<close>), its source text (\<open>getText\<close>), and
  for the kinds the verifier tells apart their parts. A class has its name (if any), its
  children that come before the members, and its members; a method has its name as
  \<open>getMethodName\<close> reads it, its children that come before the body, and its body (if
  any); a property has its name, type and initializer. Every other kind is an
  \<open>OtherNode\<close> with its children.
\<close>

datatype SyntaxKind = EqualsToken | OtherToken

datatype node =
    SourceFile (getStart: nat) (getText: string) "node list"
  | ClassDeclaration (getStart: nat) (getText: string) "string option" "node list" "node list"
  | MethodDeclaration (getStart: nat) (getText: string) string "node list" "node option"
  | PropertyDeclaration (getStart: nat) (getText: string) node "node option" "node option"
  | Block (getStart: nat) (getText: string) "node list"
  | IfStatement (getStart: nat) (getText: string) node node "node option"
  | ExpressionStatement (getStart: nat) (getText: string) node
  | CallExpression (getStart: nat) (getText: string) node "node list"
  | BinaryExpression (getStart: nat) (getText: string) node SyntaxKind node
  | OtherNode (getStart: nat) (getText: string) "node list"

fun optNode :: "node option \<Rightarrow> node list" where
  "optNode None = []"
| "optNode (Some n) = [n]"

text \<open>
  \<^verbatim>\<open>ts.forEachChild\<close>: the children of a node, in source order. The operator token of a
  binary expression is a child too; it is a token with no children and of none of the
  kinds a callback looks for, and the model leaves it out.
\<close>

fun forEachChild :: "node \<Rightarrow> node list" where
  "forEachChild (SourceFile p t ss) = ss"
| "forEachChild (ClassDeclaration p t nm others ms) = others @ ms"
| "forEachChild (MethodDeclaration p t nm others b) = others @ optNode b"
| "forEachChild (PropertyDeclaration p t nm ty ini) = nm # optNode ty @ optNode ini"
| "forEachChild (Block p t ss) = ss"
| "forEachChild (IfStatement p t e th el) = e # th # optNode el"
| "forEachChild (ExpressionStatement p t e) = [e]"
| "forEachChild (CallExpression p t e args) = e # args"
| "forEachChild (BinaryExpression p t l opr r) = [l, r]"
| "forEachChild (OtherNode p t cs) = cs"

text \<open>
  \<open>walkTree\<close> calls its callback on the node and then walks each child: the nodes in the
  order the callback sees them. It ends because every child is smaller than its parent.
\<close>

function walkTree :: "node \<Rightarrow> node list" where
  "walkTree n = n # concat (map walkTree (forEachChild n))"
  by pat_completeness auto
termination
proof (relation "measure size")
  show "wf (measure (size :: node \<Rightarrow> nat))" by simp
next
  fix n c :: node
  assume c: "c \<in> set (forEachChild n)"
  have opt: "x \<in> set (optNode b) \<Longrightarrow> size x < Suc (size_option size b)" for x :: node and b
    by (cases b) auto
  have mem: "x \<in> set xs \<Longrightarrow> size x < Suc (size_list size xs)" for x :: node and xs
    by (induction xs) auto
  from c have "size c < size n"
    by (cases n) (auto dest: opt mem)
  then show "(c, n) \<in> measure size" by simp
qed

declare walkTree.simps [simp del]

fun isClassDeclaration :: "node \<Rightarrow> bool" where
  "isClassDeclaration (ClassDeclaration p t nm others ms) = True"
| "isClassDeclaration n = False"

fun isMethodDeclaration :: "node \<Rightarrow> bool" where
  "isMethodDeclaration (MethodDeclaration p t nm others b) = True"
| "isMethodDeclaration n = False"

definition findClassDeclarations :: "node \<Rightarrow> node list" where
  "findClassDeclarations sourceFile = filter isClassDeclaration (walkTree sourceFile)"

text \<open>
  The functions below take a node of one kind by their TypeScript types; their last
  equation covers the kinds they are never given.
\<close>

fun getClassName :: "node \<Rightarrow> string" where
  "getClassName (ClassDeclaration p t (Some nm) others ms) =
     (if nm = [] then ''<anonymous>'' else nm)"
| "getClassName n = ''<anonymous>''"

fun members :: "node \<Rightarrow> node list" where
  "members (ClassDeclaration p t nm others ms) = ms"
| "members n = []"

definition getClassMethods :: "node \<Rightarrow> node list" where
  "getClassMethods classDecl = filter isMethodDeclaration (members classDecl)"

fun getMethodName :: "node \<Rightarrow> string" where
  "getMethodName (MethodDeclaration p t nm others b) = nm"
| "getMethodName n = []"

fun body :: "node \<Rightarrow> node option" where
  "body (MethodDeclaration p t nm others b) = b"
| "body n = None"

fun statements :: "node \<Rightarrow> node list" where
  "statements (Block p t ss) = ss"
| "statements (SourceFile p t ss) = ss"
| "statements n = []"

definition getMethodBodyText :: "node \<Rightarrow> string" where
  "getMethodBodyText method = (case body method of None \<Rightarrow> [] | Some b \<Rightarrow> getText b)"

text \<open>
  A \<^verbatim>\<open>Map\<close> in insertion order: \<open>map_set\<close> replaces the value of a key that is there
  and appends a new key.
\<close>

fun map_set :: "('k \<times> 'v) list \<Rightarrow> 'k \<Rightarrow> 'v \<Rightarrow> ('k \<times> 'v) list" where
  "map_set [] k v = [(k, v)]"
| "map_set ((k', v') # m) k v = (if k' = k then (k, v) # m else (k', v') # map_set m k v)"

definition map_get :: "('k \<times> 'v) list \<Rightarrow> 'k \<Rightarrow> 'v option" where
  "map_get m k = map_of m k"

definition storedTypes :: "string list" where
  "storedTypes = [''StoredU256'', ''StoredAddress'', ''StoredBoolean'', ''StoredString'',
                  ''StoredMapU256'', ''AddressMemoryMap'']"

definition optText :: "node option \<Rightarrow> string" where
  "optText n = (case n of None \<Rightarrow> [] | Some x \<Rightarrow> getText x)"

fun storedField :: "(string \<times> string) list \<Rightarrow> node \<Rightarrow> (string \<times> string) list" where
  "storedField stored (PropertyDeclaration p t nm ty ini) =
     (case find (\<lambda>st. str_includes (optText ty) st \<or> str_includes (optText ini) (''new '' @ st))
             storedTypes of
        None \<Rightarrow> stored
      | Some st \<Rightarrow> map_set stored (getText nm) st)"
| "storedField stored n = stored"

definition detectStoredFields :: "node \<Rightarrow> (string \<times> string) list" where
  "detectStoredFields classDecl = foldl storedField [] (members classDecl)"

text \<open>The sites the extractors return; \<open>nodeText\<close> is the field \<^verbatim>\<open>text\<close>.\<close>

record CallSite =
  pos :: nat
  nodeText :: string

record StateWrite =
  pos :: nat
  field :: string
  nodeText :: string

record GuardCheck =
  condition :: string
  message :: string
  pos :: nat

fun blockchainCall :: "node \<Rightarrow> CallSite list" where
  "blockchainCall (CallExpression p t e args) =
     (if getText e = ''Blockchain.call'' then [\<lparr> CallSite.pos = p, CallSite.nodeText = t \<rparr>] else [])"
| "blockchainCall n = []"

definition findBlockchainCalls :: "node \<Rightarrow> CallSite list" where
  "findBlockchainCalls method =
     (case body method of None \<Rightarrow> [] | Some b \<Rightarrow> concat (map blockchainCall (walkTree b)))"

text \<open>\<^verbatim>\<open>/this\.(\w+)\.set/\<close> at the start of a text: the field name.\<close>

definition re_this_set :: "string \<Rightarrow> string option" where
  "re_this_set s =
     rx_lit ''this.'' s (\<lambda>r.
     rx_greedy isWordChar 1 r (\<lambda>w r.
     rx_lit ''.set'' r (\<lambda>r. Some w)))"

fun stateWrite :: "string list \<Rightarrow> node \<Rightarrow> StateWrite list" where
  "stateWrite storedFields (BinaryExpression p t l opr r) =
     (if opr = EqualsToken \<and> endsWith (getText l) ''.value'' then
        (case search re_this_value 0 (getText l) of
           None \<Rightarrow> []
         | Some (i, (f, n)) \<Rightarrow>
             (if f \<in> set storedFields
              then [\<lparr> StateWrite.pos = p, field = f, StateWrite.nodeText = getText l \<rparr>] else []))
      else [])"
| "stateWrite storedFields (CallExpression p t e args) =
     (if str_includes (getText e) ''this.'' \<and> endsWith (getText e) ''.set'' then
        (case search re_this_set 0 (getText e) of
           None \<Rightarrow> []
         | Some (i, f) \<Rightarrow>
             (if f \<in> set storedFields
              then [\<lparr> StateWrite.pos = p, field = f, StateWrite.nodeText = getText e \<rparr>] else []))
      else [])"
| "stateWrite storedFields n = []"

definition findStateWrites :: "node \<Rightarrow> string list \<Rightarrow> StateWrite list" where
  "findStateWrites method storedFields =
     (case body method of None \<Rightarrow> []
      | Some b \<Rightarrow> concat (map (stateWrite storedFields) (walkTree b)))"

text \<open>
  \<^verbatim>\<open>/Revert\s*\(\s*['"]([^'"]*)['"]\s*\)/\<close> at the start of a text: the quoted message.
\<close>

definition isQuote :: "char \<Rightarrow> bool" where
  "isQuote c \<longleftrightarrow> c = CHR 0x27 \<or> c = CHR 0x22"

definition re_revert_message :: "string \<Rightarrow> string option" where
  "re_revert_message s =
     rx_lit ''Revert'' s (\<lambda>r.
     rx_greedy isSpace 0 r (\<lambda>w r.
     rx_lit ''('' r (\<lambda>r.
     rx_greedy isSpace 0 r (\<lambda>w r.
     rx_char isQuote r (\<lambda>r.
     rx_greedy (\<lambda>c. \<not> isQuote c) 0 r (\<lambda>g r.
     rx_char isQuote r (\<lambda>r.
     rx_greedy isSpace 0 r (\<lambda>w r.
     rx_lit '')'' r (\<lambda>r. Some g)))))))))"

text \<open>\<^verbatim>\<open>text.replace(';', '')\<close> removes the first semicolon.\<close>

fun guardCheck :: "node \<Rightarrow> GuardCheck list" where
  "guardCheck (IfStatement p t e th el) =
     (if str_includes (getText th) ''Revert''
      then [\<lparr> GuardCheck.condition = getText e,
              message = (case search re_revert_message 0 (getText th) of
                           None \<Rightarrow> [] | Some (i, m) \<Rightarrow> m),
              GuardCheck.pos = p \<rparr>]
      else [])"
| "guardCheck (ExpressionStatement p t e) =
     (if str_includes t ''onlyDeployer'' \<or> str_includes t ''ensureOwner''
         \<or> str_includes t ''ensureActive'' \<or> str_includes t ''requireActive''
      then [\<lparr> GuardCheck.condition = trim (remove1 (CHR '';'') t), message = [],
              GuardCheck.pos = p \<rparr>]
      else [])"
| "guardCheck n = []"

definition findGuardChecks :: "node \<Rightarrow> GuardCheck list" where
  "findGuardChecks method =
     (case body method of None \<Rightarrow> []
      | Some b \<Rightarrow> concat (map guardCheck (statements b)))"

section \<open>The verifier (verifier.ts)\<close>

subsection \<open>Helper functions\<close>

definition makeResult :: "'a SpecAnnotation_scheme \<Rightarrow> VerificationStatus \<Rightarrow> VerificationResult" where
  "makeResult sp st =
     \<lparr> spec = SpecAnnotation.truncate sp, status = st,
       VerificationResult.srcfile = SpecAnnotation.srcfile sp,
       VerificationResult.line = SpecAnnotation.line sp \<rparr>"

text \<open>
  \<open>buildReport\<close> starts every counter at zero, sets \<open>total\<close> to the length of the results
  and steps through the results, adding one to the counter of each status.
\<close>

definition countStatus :: "Summary \<Rightarrow> VerificationResult \<Rightarrow> Summary" where
  "countStatus sm r =
     (case status r of
        VERIFIED \<Rightarrow> sm \<lparr> verified := verified sm + 1 \<rparr>
      | UNVERIFIED \<Rightarrow> sm \<lparr> unverified := unverified sm + 1 \<rparr>
      | VIOLATED \<Rightarrow> sm \<lparr> violated := violated sm + 1 \<rparr>
      | MISSING \<Rightarrow> sm \<lparr> missing := missing sm + 1 \<rparr>)"

definition buildReport :: "ContractSpecs \<Rightarrow> VerificationResult list \<Rightarrow> VerificationReport" where
  "buildReport contract rs =
     \<lparr> contractName = className contract,
       VerificationReport.srcfile = ContractSpecs.srcfile contract,
       results = rs,
       summary = fold (\<lambda>r sm. countStatus sm r) rs
                   \<lparr> verified = 0, unverified = 0, violated = 0, missing = 0,
                     total = length rs \<rparr> \<rparr>"

text \<open>
  \<open>extractKeyTerms\<close>: the characters \<^verbatim>\<open>!()=<>\<close> become spaces, the text is split at
  white space, pieces of more than two characters are kept, and a leading \<^verbatim>\<open>this.\<close>
  and then a trailing \<^verbatim>\<open>.value\<close> are taken off each.
\<close>

definition extractKeyTerms :: "string \<Rightarrow> string list" where
  "extractKeyTerms expr =
     map (\<lambda>t. stripSuffix ''.value'' (stripPrefix ''this.'' t))
       (filter (\<lambda>t. 2 < length t)
          (split_ws (map (\<lambda>c. if c \<in> set ''!()=<>'' then CHR '' '' else c) expr)))"

text \<open>\<^verbatim>\<open>/\/\/.*$/gm\<close> and \<^verbatim>\<open>/\/\*[\s\S]*?\*\//g\<close>: the length matched.\<close>

definition re_line_comment :: "string \<Rightarrow> nat option" where
  "re_line_comment s =
     rx_lit ''//'' s (\<lambda>r.
     rx_greedy notLineTerminator 0 r (\<lambda>g r.
       (case r of [] \<Rightarrow> Some (2 + length g)
        | c # cs \<Rightarrow> if isLineTerminator c then Some (2 + length g) else None)))"

definition re_block_comment :: "string \<Rightarrow> nat option" where
  "re_block_comment s =
     rx_lit ''/*'' s (\<lambda>r.
     rx_lazy (\<lambda>c. True) 0 r (\<lambda>g r.
     rx_lit ''*/'' r (\<lambda>r. Some (2 + length g + 2))))"

definition stripComments :: "string \<Rightarrow> string" where
  "stripComments t = remove_all re_block_comment 0 (remove_all re_line_comment 0 t)"

text \<open>\<^verbatim>\<open>/this\.(\w+)/\<close> at the start of a text: what the loop pushes, and the length.\<close>

definition re_this_word :: "string \<Rightarrow> (string \<times> nat) option" where
  "re_this_word s =
     rx_lit ''this.'' s (\<lambda>r.
     rx_greedy isWordChar 1 r (\<lambda>w r. Some (''this.'' @ w, 5 + length w)))"

definition extractFieldRefsFromExpr :: "string \<Rightarrow> string list" where
  "extractFieldRefsFromExpr expr = exec_all re_this_word 0 expr"

subsection \<open>Access\<close>

definition verifyAccess :: "AccessSpec \<Rightarrow> node \<Rightarrow> VerificationResult" where
  "verifyAccess accessSpec method =
     (let bodyText = getMethodBodyText method;
          lvl = toLowerCase (level accessSpec)
      in if lvl = ''deployer-only'' then
           (let bodyNoComments = stripComments bodyText;
                hasDeployerCheck = (str_includes bodyNoComments ''onlyDeployer''
                                    \<or> str_includes bodyNoComments ''this.onlyDeployer'');
                hasSenderCheck = (str_includes bodyNoComments ''Blockchain.tx.sender''
                                  \<and> (str_includes bodyNoComments ''deployer''
                                       \<or> str_includes bodyNoComments ''owner''))
            in if hasDeployerCheck then makeResult accessSpec VERIFIED
               else if hasSenderCheck then makeResult accessSpec VERIFIED
               else makeResult accessSpec VIOLATED)
         else if lvl = ''owner-only'' then
           (let bodyNoComments = stripComments bodyText;
                hasOwnerCheck = (str_includes bodyNoComments ''ensureOwner''
                                 \<or> str_includes bodyNoComments ''this.ensureOwner''
                                 \<or> str_includes bodyNoComments ''onlyOwner''
                                 \<or> str_includes bodyNoComments ''this.onlyOwner'');
                hasManualOwnerCheck = (str_includes bodyNoComments ''this.owner.value''
                                       \<and> str_includes bodyNoComments ''Blockchain.tx.sender'')
            in if hasOwnerCheck then makeResult accessSpec VERIFIED
               else if hasManualOwnerCheck then makeResult accessSpec VERIFIED
               else makeResult accessSpec VIOLATED)
         else if lvl = ''anyone'' then
           (let hasRestriction = (str_includes bodyText ''onlyDeployer''
                                  \<or> str_includes bodyText ''ensureOwner''
                                  \<or> str_includes bodyText ''onlyOwner'')
            in if hasRestriction then makeResult accessSpec VIOLATED
               else makeResult accessSpec VERIFIED)
         else makeResult accessSpec UNVERIFIED)"

subsection \<open>Preconditions\<close>

definition guardHelpers :: "string list" where
  "guardHelpers = [''ensureActive'', ''ensureOwner'', ''requireActive'', ''requireStatus'',
                   ''onlyActive'', ''onlyDeployer'']"

text \<open>
  The test of the loop over the guards: the number of key terms of the expression that
  are among the guard's terms is positive and at least \<^verbatim>\<open>Math.ceil(n * 0.5)\<close> for the
  \<open>n\<close> key terms, which is \<open>(n + 1) div 2\<close>.
\<close>

definition guardMatches :: "string list \<Rightarrow> GuardCheck \<Rightarrow> bool" where
  "guardMatches keyTerms guard =
     (let guardTerms = extractKeyTerms (GuardCheck.condition guard);
          matchCount = length (filter (\<lambda>t. t \<in> set guardTerms) keyTerms)
      in 0 < matchCount \<and> (length keyTerms + 1) div 2 \<le> matchCount)"

definition verifyPrecondition :: "PreconditionSpec \<Rightarrow> node \<Rightarrow> VerificationResult" where
  "verifyPrecondition preSpec method =
     (let expr = trim (expression preSpec);
          bodyText = getMethodBodyText method;
          guards = findGuardChecks method
      in if str_includes expr ''ensureOwner'' \<or> str_includes expr ''onlyDeployer'' then
           (if str_includes bodyText ''ensureOwner'' \<or> str_includes bodyText ''onlyDeployer''
            then makeResult preSpec VERIFIED else makeResult preSpec VIOLATED)
         else if str_includes expr ''ensureActive'' then
           (if str_includes bodyText ''ensureActive''
            then makeResult preSpec VERIFIED else makeResult preSpec VIOLATED)
         else if (str_includes expr ''status'' \<or> str_includes expr ''STATUS''
                  \<or> str_includes expr ''state'')
                 \<and> list_ex (\<lambda>helper. str_includes bodyText helper) guardHelpers then
           makeResult preSpec UNVERIFIED
         else if list_ex (guardMatches (extractKeyTerms expr)) guards then
           makeResult preSpec VERIFIED
         else
           (let fieldRefs = extractFieldRefsFromExpr expr;
                bodyHasFields = list_all (\<lambda>f. str_includes bodyText f) fieldRefs;
                bodyHasRevert = str_includes bodyText ''Revert''
            in if bodyHasFields \<and> bodyHasRevert then makeResult preSpec UNVERIFIED
               else if bodyHasRevert then makeResult preSpec UNVERIFIED
               else makeResult preSpec VIOLATED))"

subsection \<open>Postconditions and the CEI check\<close>

text \<open>
  The double loop of \<open>verifyCEI\<close> collects one violation for each external call and each
  state write that starts after it.
\<close>

definition ceiViolations :: "CallSite list \<Rightarrow> StateWrite list \<Rightarrow> StateWrite list" where
  "ceiViolations externalCalls stateWrites =
     concat (map (\<lambda>call. filter (\<lambda>write. CallSite.pos call < StateWrite.pos write) stateWrites)
               externalCalls)"

definition verifyCEI :: "PostconditionSpec \<Rightarrow> node \<Rightarrow> string list \<Rightarrow> VerificationResult" where
  "verifyCEI sp method storedFields =
     (let externalCalls = findBlockchainCalls method;
          stateWrites = findStateWrites method storedFields
      in if length externalCalls = 0 then makeResult sp VERIFIED
         else if length stateWrites = 0 then makeResult sp VERIFIED
         else if 0 < length (ceiViolations externalCalls stateWrites)
              then makeResult sp VIOLATED
         else makeResult sp VERIFIED)"

definition unmodifiedFields :: "string \<Rightarrow> string list \<Rightarrow> string list" where
  "unmodifiedFields bodyText fieldRefs =
     filter (\<lambda>f. \<not> str_includes bodyText (''this.'' @ f @ ''.value'')
                \<and> \<not> str_includes bodyText (''this.'' @ f @ ''.set'')) fieldRefs"

definition verifyPostcondition ::
  "PostconditionSpec \<Rightarrow> node \<Rightarrow> string list \<Rightarrow> VerificationResult" where
  "verifyPostcondition postSpec method storedFields =
     (if isCEI postSpec then verifyCEI postSpec method storedFields
      else
        (let bodyText = getMethodBodyText method
         in if 0 < length (PostconditionSpec.fieldReferences postSpec)
               \<and> 0 < length (unmodifiedFields bodyText (PostconditionSpec.fieldReferences postSpec))
            then makeResult postSpec UNVERIFIED
            else if str_includes (expression postSpec) ''return''
                    \<and> \<not> str_includes bodyText ''return''
            then makeResult postSpec VIOLATED
            else if 0 < length (oldReferences postSpec) then makeResult postSpec UNVERIFIED
            else if 0 < length (PostconditionSpec.fieldReferences postSpec)
            then makeResult postSpec UNVERIFIED
            else makeResult postSpec UNVERIFIED))"

subsection \<open>Calls\<close>

text \<open>\<^verbatim>\<open>/\(.*\)$/\<close> at the start of a text.\<close>

definition re_paren_tail :: "string \<Rightarrow> unit option" where
  "re_paren_tail s =
     rx_lit ''('' s (\<lambda>r.
     rx_greedy notLineTerminator 0 r (\<lambda>g r.
     rx_lit '')'' r (\<lambda>r.
     rx_end r ())))"

definition verifyCalls :: "CallsSpec \<Rightarrow> node \<Rightarrow> VerificationResult" where
  "verifyCalls callSpec method =
     (let bodyText = getMethodBodyText method;
          externalCalls = findBlockchainCalls method;
          targetField = stripSuffix ''.value'' (stripPrefix ''this.'' (target callSpec));
          targetReferenced = (str_includes bodyText (target callSpec)
                              \<or> str_includes bodyText targetField);
          calledMethodName = (case search re_paren_tail 0 (calledMethod callSpec) of
                                None \<Rightarrow> calledMethod callSpec
                              | Some (i, u) \<Rightarrow> take i (calledMethod callSpec));
          selectorRef = (str_includes bodyText calledMethodName
                         \<or> str_includes bodyText ''Selector''
                         \<or> str_includes bodyText ''encodeSelector'');
          checksSuccess = (str_includes bodyText ''.success''
                           \<or> str_includes bodyText ''result.success''
                           \<or> str_includes bodyText ''Revert'')
      in if length externalCalls = 0 then makeResult callSpec VIOLATED
         else if \<not> targetReferenced then makeResult callSpec VIOLATED
         else if calledMethodName \<noteq> [] \<and> \<not> selectorRef then makeResult callSpec UNVERIFIED
         else if expectation callSpec = ''must-succeed'' \<and> \<not> checksSuccess
              then makeResult callSpec VIOLATED
         else makeResult callSpec VERIFIED)"

subsection \<open>State transitions\<close>

definition verifyStateTransition :: "StateSpec \<Rightarrow> node \<Rightarrow> VerificationResult" where
  "verifyStateTransition stateSpec method =
     (let bodyText = getMethodBodyText method;
          tr = transition stateSpec;
          isNegatedFrom = startsWith (fromState tr) ''!'';
          cleanFromState = stripPrefix ''!'' (fromState tr);
          isNegatedTo = startsWith (toState tr) ''!'';
          cleanToState = stripPrefix ''!'' (toState tr);
          stateRelatedTerms = [toLowerCase cleanFromState, toLowerCase cleanToState,
                               ''status'', ''state'', ''graduated'', ''initialized'', ''active''];
          bodyLower = toLowerCase bodyText;
          hasStateRef = list_ex (\<lambda>t. str_includes bodyLower t) stateRelatedTerms;
          hasGuard = (str_includes bodyText ''Revert'' \<or> str_includes bodyText ''throw'');
          conditionMissing =
            (case StateTransition.condition tr of
               None \<Rightarrow> False
             | Some c \<Rightarrow> c \<noteq> [] \<and>
                 \<not> list_ex (\<lambda>t. str_includes bodyLower (toLowerCase t)) (extractKeyTerms c))
      in if \<not> hasStateRef then makeResult stateSpec UNVERIFIED
         else if \<not> hasGuard then makeResult stateSpec UNVERIFIED
         else if conditionMissing then makeResult stateSpec UNVERIFIED
         else if cleanFromState = cleanToState \<and> isNegatedFrom = isNegatedTo
              then makeResult stateSpec UNVERIFIED
         else makeResult stateSpec UNVERIFIED)"

subsection \<open>Invariants\<close>

text \<open>
  The first loop of \<open>verifyInvariant\<close> keeps the names of the methods whose body text
  holds \<^verbatim>\<open>this.F.value\<close> or \<^verbatim>\<open>this.F.set\<close> for a referenced field \<open>F\<close>; the second
  looks each name up again and pushes one result for it.
\<close>

definition touchesField :: "string list \<Rightarrow> node \<Rightarrow> bool" where
  "touchesField fieldRefs method =
     list_ex (\<lambda>f. str_includes (getMethodBodyText method) (''this.'' @ f @ ''.value'')
                 \<or> str_includes (getMethodBodyText method) (''this.'' @ f @ ''.set'')) fieldRefs"

definition modifyingMethods :: "string list \<Rightarrow> (string \<times> node) list \<Rightarrow> string list" where
  "modifyingMethods fieldRefs allMethods =
     map fst (filter (\<lambda>(mname, method). touchesField fieldRefs method) allMethods)"

definition invariantAt :: "InvariantSpec \<Rightarrow> (string \<times> node) list \<Rightarrow> string \<Rightarrow> VerificationResult list" where
  "invariantAt invariant allMethods mname =
     (case map_get allMethods mname of
        None \<Rightarrow> []
      | Some method \<Rightarrow>
          (let bodyText = getMethodBodyText method;
               hasChecks = (str_includes bodyText ''Revert'' \<or> str_includes bodyText ''throw'')
           in if hasChecks then [makeResult invariant UNVERIFIED]
              else [makeResult invariant UNVERIFIED]))"

definition verifyInvariant ::
  "InvariantSpec \<Rightarrow> node \<Rightarrow> (string \<times> node) list \<Rightarrow> VerificationResult list" where
  "verifyInvariant invariant classDecl allMethods =
     (if length (InvariantSpec.fieldReferences invariant) = 0
      then [makeResult invariant UNVERIFIED]
      else
        (let modifying = modifyingMethods (InvariantSpec.fieldReferences invariant) allMethods
         in if length modifying = 0 then [makeResult invariant VERIFIED]
            else concat (map (invariantAt invariant allMethods) modifying)))"

subsection \<open>Constraints of the platform\<close>

text \<open>
  \<^verbatim>\<open>/Selector\s*=\s*(?:0x[0-9a-fA-F]+|\d+)/\<close>,
  \<^verbatim>\<open>/Address\.fromString\s*\(([^)]*)\)/\<close> (the group and the length matched) and
  \<^verbatim>\<open>/\.approve\s*\(/\<close>, each at the start of a text.
\<close>

definition re_hardcoded_selector :: "string \<Rightarrow> unit option" where
  "re_hardcoded_selector s =
     rx_lit ''Selector'' s (\<lambda>r.
     rx_greedy isSpace 0 r (\<lambda>w r.
     rx_lit ''='' r (\<lambda>r.
     rx_greedy isSpace 0 r (\<lambda>w r.
       (case rx_lit ''0x'' r (\<lambda>r. rx_greedy isHexDigit 1 r (\<lambda>g r. Some ())) of
          Some u \<Rightarrow> Some u
        | None \<Rightarrow> rx_greedy isDigit 1 r (\<lambda>g r. Some ()))))))"

definition re_fromString :: "string \<Rightarrow> (string \<times> nat) option" where
  "re_fromString s =
     rx_lit ''Address.fromString'' s (\<lambda>r.
     rx_greedy isSpace 0 r (\<lambda>w r.
     rx_lit ''('' r (\<lambda>r.
     rx_greedy (\<lambda>c. c \<noteq> CHR '')'') 0 r (\<lambda>g r.
     rx_lit '')'' r (\<lambda>r. Some (g, 18 + length w + 1 + length g + 1))))))"

definition re_approve :: "string \<Rightarrow> unit option" where
  "re_approve s =
     rx_lit ''.approve'' s (\<lambda>r.
     rx_greedy isSpace 0 r (\<lambda>w r.
     rx_lit ''('' r (\<lambda>r. Some ())))"

definition verifyOpnetConstraint :: "OpnetSpec \<Rightarrow> node \<Rightarrow> VerificationResult" where
  "verifyOpnetConstraint sp classDecl =
     (let classText = getText classDecl
      in if constraint sp = ''selectors-sha256'' then
           (let hasEncodeSelector = str_includes classText ''encodeSelector'';
                hasHardcodedSelector = (search re_hardcoded_selector 0 classText \<noteq> None)
            in if hasHardcodedSelector \<and> \<not> hasEncodeSelector then makeResult sp VIOLATED
               else if hasEncodeSelector then makeResult sp VERIFIED
               else makeResult sp UNVERIFIED)
         else if constraint sp = ''address-two-params'' then
           (let violations = filter (\<lambda>args. length (split_on CHR '','' args) < 2)
                               (exec_all re_fromString 0 classText)
            in if 0 < length violations then makeResult sp VIOLATED
               else if str_includes classText ''Address.fromString'' then makeResult sp VERIFIED
               else makeResult sp VERIFIED)
         else if constraint sp = ''no-approve'' then
           (if search re_approve 0 classText \<noteq> None then makeResult sp VIOLATED
            else makeResult sp VERIFIED)
         else if constraint sp = ''csv-timelocks'' then makeResult sp UNVERIFIED
         else makeResult sp UNVERIFIED)"

subsection \<open>The engine\<close>

text \<open>The specs of one entry of \<open>methods\<close>, for a method that is missing and for one found.\<close>

definition missingMethodResults :: "MethodSpecs \<Rightarrow> VerificationResult list" where
  "missingMethodResults methodSpecs =
     (case access methodSpecs of None \<Rightarrow> [] | Some a \<Rightarrow> [makeResult a MISSING])
     @ map (\<lambda>pre. makeResult pre MISSING) (preconditions methodSpecs)
     @ map (\<lambda>post. makeResult post MISSING) (postconditions methodSpecs)
     @ map (\<lambda>call. makeResult call MISSING) (calls methodSpecs)"

definition foundMethodResults :: "MethodSpecs \<Rightarrow> node \<Rightarrow> string list \<Rightarrow> VerificationResult list" where
  "foundMethodResults methodSpecs method storedFieldNames =
     (case access methodSpecs of None \<Rightarrow> [] | Some a \<Rightarrow> [verifyAccess a method])
     @ map (\<lambda>pre. verifyPrecondition pre method) (preconditions methodSpecs)
     @ map (\<lambda>post. verifyPostcondition post method storedFieldNames) (postconditions methodSpecs)
     @ map (\<lambda>call. verifyCalls call method) (calls methodSpecs)
     @ map (\<lambda>st. verifyStateTransition st method) (MethodSpecs.stateTransitions methodSpecs)
     @ map (\<lambda>temp. makeResult temp UNVERIFIED) (temporal methodSpecs)"

definition methodResults ::
  "(string \<times> node) list \<Rightarrow> string list \<Rightarrow> string \<times> MethodSpecs \<Rightarrow> VerificationResult list" where
  "methodResults allMethods storedFieldNames entry =
     (case map_get allMethods (fst entry) of
        None \<Rightarrow> missingMethodResults (snd entry)
      | Some method \<Rightarrow> foundMethodResults (snd entry) method storedFieldNames)"

text \<open>
  The last loop: a contract-level transition whose object is already the spec of a
  result (\<^verbatim>\<open>r.spec === st\<close>) is passed over; otherwise each method it names gives one
  result.
\<close>

definition contractTransition ::
  "(string \<times> node) list \<Rightarrow> VerificationResult list \<Rightarrow> StateSpec \<Rightarrow> VerificationResult list" where
  "contractTransition allMethods rs st =
     (if list_ex (\<lambda>r. objectId (spec r) = objectId st) rs then rs
      else rs @ map (\<lambda>mname.
                       case map_get allMethods mname of
                         Some method \<Rightarrow> verifyStateTransition st method
                       | None \<Rightarrow> makeResult st MISSING)
                  (StateTransition.methods (transition st)))"

definition verifyContract :: "ContractSpecs \<Rightarrow> node \<Rightarrow> VerificationReport" where
  "verifyContract contract sourceFile =
     (case find (\<lambda>c. getClassName c = className contract) (findClassDeclarations sourceFile) of
        None \<Rightarrow>
          buildReport contract (map (\<lambda>inv. makeResult inv MISSING) (invariants contract))
      | Some classDecl \<Rightarrow>
          (let allMethods = foldl (\<lambda>m method. map_set m (getMethodName method) method) []
                              (getClassMethods classDecl);
               storedFieldNames = map fst (detectStoredFields classDecl);
               rs1 = concat (map (\<lambda>inv. verifyInvariant inv classDecl allMethods)
                               (invariants contract));
               rs2 = map (\<lambda>opnet. verifyOpnetConstraint opnet classDecl)
                       (opnetConstraints contract);
               rs3 = concat (map (methodResults allMethods storedFieldNames)
                               (ContractSpecs.methods contract));
               rs4 = foldl (contractTransition allMethods) (rs1 @ rs2 @ rs3)
                       (ContractSpecs.stateTransitions contract)
           in buildReport contract rs4))"

section \<open>Example inputs\<close>

text \<open>
  A statement \<^verbatim>\<open>Blockchain.call(dest, data);\<close> and a statement
  \<^verbatim>\<open>this.total.value = amount;\<close> starting at a given offset, and two methods that
  hold them in either order.
\<close>

definition exampleCall :: "nat \<Rightarrow> node" where
  "exampleCall p =
     ExpressionStatement p ''Blockchain.call(dest, data);''
       (CallExpression p ''Blockchain.call(dest, data)''
          (OtherNode p ''Blockchain.call'' [])
          [OtherNode (p + 16) ''dest'' [], OtherNode (p + 22) ''data'' []])"

definition exampleWrite :: "nat \<Rightarrow> node" where
  "exampleWrite p =
     ExpressionStatement p ''this.total.value = amount;''
       (BinaryExpression p ''this.total.value = amount''
          (OtherNode p ''this.total.value'' []) EqualsToken (OtherNode (p + 19) ''amount'' []))"

definition callThenWrite :: node where
  "callThenWrite =
     MethodDeclaration 0 ''pay() { Blockchain.call(dest, data); this.total.value = amount; }''
       ''pay'' []
       (Some (Block 6 ''{ Blockchain.call(dest, data); this.total.value = amount; }''
                [exampleCall 8, exampleWrite 37]))"

definition writeThenCall :: node where
  "writeThenCall =
     MethodDeclaration 0 ''pay() { this.total.value = amount; Blockchain.call(dest, data); }''
       ''pay'' []
       (Some (Block 6 ''{ this.total.value = amount; Blockchain.call(dest, data); }''
                [exampleWrite 8, exampleCall 35]))"

text \<open>An annotation with an identity, a tag and an expression, at a fixed place.\<close>

definition exampleAnnotation :: "nat \<Rightarrow> SpecTag \<Rightarrow> string \<Rightarrow> SpecAnnotation" where
  "exampleAnnotation oid t e =
     \<lparr> objectId = oid, tag = t, expression = e, comment = None,
       SpecAnnotation.srcfile = ''Token.ts'', SpecAnnotation.line = 12, column = 5 \<rparr>"

definition ceiSpec :: PostconditionSpec where
  "ceiSpec = mkEnsures ''pay'' (exampleAnnotation 1 Tag_ensures ''CEI'')"

text \<open>
  A method \<^verbatim>\<open>mint\<close> whose body is the guard
  \<^verbatim>\<open>if (amount == 0) { throw new Revert(); }\<close>, and the precondition
  \<^verbatim>\<open>amount > 0\<close> on it.
\<close>

definition guardedMint :: node where
  "guardedMint =
     MethodDeclaration 0 ''mint() { if (amount == 0) { throw new Revert(); } }'' ''mint'' []
       (Some (Block 7 ''{ if (amount == 0) { throw new Revert(); } }''
                [IfStatement 9 ''if (amount == 0) { throw new Revert(); }''
                   (OtherNode 13 ''amount == 0'' [])
                   (Block 26 ''{ throw new Revert(); }''
                      [OtherNode 28 ''throw new Revert();'' []])
                   None]))"

definition amountPositive :: PreconditionSpec where
  "amountPositive = mkPrecondition ''mint'' (exampleAnnotation 2 Tag_pre ''amount > 0'')"

text \<open>
  A method \<^verbatim>\<open>pause\<close> that calls \<^verbatim>\<open>this.onlyDeployer(Blockchain.tx.sender);\<close>, a
  method \<^verbatim>\<open>open\<close> with an empty body, and the access spec \<^verbatim>\<open>deployer-only\<close>.
\<close>

definition guardedPause :: node where
  "guardedPause =
     MethodDeclaration 0 ''pause() { this.onlyDeployer(Blockchain.tx.sender); }'' ''pause'' []
       (Some (Block 8 ''{ this.onlyDeployer(Blockchain.tx.sender); }''
                [ExpressionStatement 10 ''this.onlyDeployer(Blockchain.tx.sender);''
                   (CallExpression 10 ''this.onlyDeployer(Blockchain.tx.sender)''
                      (OtherNode 10 ''this.onlyDeployer'' [])
                      [OtherNode 28 ''Blockchain.tx.sender'' []])]))"

definition emptyMethod :: node where
  "emptyMethod = MethodDeclaration 0 ''open() { }'' ''open'' [] (Some (Block 7 ''{ }'' []))"

definition deployerOnly :: AccessSpec where
  "deployerOnly = mkAccess ''pause'' (exampleAnnotation 3 Tag_access ''deployer-only'')"

text \<open>
  A source file whose one class is \<^verbatim>\<open>Token\<close>, and the specs of a contract
  \<^verbatim>\<open>Vault\<close>: no invariant, the constraint \<^verbatim>\<open>no-approve\<close>, and a method
  \<^verbatim>\<open>withdraw\<close> with the precondition \<^verbatim>\<open>amount > 0\<close>.
\<close>

definition tokenFile :: node where
  "tokenFile =
     SourceFile 0 ''class Token { open() { } }''
       [ClassDeclaration 0 ''class Token { open() { } }'' (Some ''Token'')
          [OtherNode 6 ''Token'' []] [emptyMethod]]"

definition vaultSpecs :: ContractSpecs where
  "vaultSpecs =
     \<lparr> className = ''Vault'', ContractSpecs.srcfile = ''Token.ts'', invariants = [],
       ContractSpecs.stateTransitions = [],
       opnetConstraints =
         [SpecAnnotation.extend (exampleAnnotation 4 Tag_opnet ''no-approve'')
            \<lparr> constraint = ''no-approve'' \<rparr>],
       ContractSpecs.methods =
         [(''withdraw'',
           buildMethodSpecs ''withdraw'' [exampleAnnotation 5 Tag_pre ''amount > 0''] ''Token.ts'')] \<rparr>"

text \<open>
  An invariant that names no stored field, the postcondition
  \<^verbatim>\<open>this.total.value == old(this.total.value) + amount\<close> and the postcondition
  \<^verbatim>\<open>return > 0\<close>.
\<close>

definition plainInvariant :: InvariantSpec where
  "plainInvariant =
     SpecAnnotation.extend (exampleAnnotation 6 Tag_invariant ''supply >= 0'')
       \<lparr> InvariantSpec.fieldReferences = extractFieldReferences ''supply >= 0'' \<rparr>"

definition totalGrows :: PostconditionSpec where
  "totalGrows =
     mkPost ''open''
       (exampleAnnotation 7 Tag_post ''this.total.value == old(this.total.value) + amount'')"

definition returnsPositive :: PostconditionSpec where
  "returnsPositive = mkPost ''open'' (exampleAnnotation 8 Tag_post ''return > 0'')"

section \<open>The spec count of a contract\<close>

text \<open>
  The number the specification compares the results of a missing class with: the specs
  attached to the contract record, which are its invariants, its platform constraints and
  every method-level spec. This definition follows the words of the specification; the
  verifier has no such function.
\<close>

definition methodSpecCount :: "MethodSpecs \<Rightarrow> nat" where
  "methodSpecCount ms =
     (case access ms of None \<Rightarrow> 0 | Some a \<Rightarrow> 1)
     + length (preconditions ms) + length (postconditions ms) + length (calls ms)
     + length (MethodSpecs.stateTransitions ms) + length (temporal ms)"

definition attachedSpecCount :: "ContractSpecs \<Rightarrow> nat" where
  "attachedSpecCount contract =
     length (invariants contract) + length (opnetConstraints contract)
     + sum_list (map (\<lambda>entry. methodSpecCount (snd entry)) (ContractSpecs.methods contract))"

section \<open>Verified properties\<close>

subsection \<open>Basic facts\<close>

lemma status_makeResult [simp]: "status (makeResult sp st) = st"
  by (simp add: makeResult_def)

lemma str_includes_sublist: "str_includes s sub \<longleftrightarrow> sublist sub s"
  by (induction s) (auto simp: sublist_Cons_right)

lemma str_includes_append_right: "str_includes s (p @ q) \<Longrightarrow> str_includes s q"
  unfolding str_includes_sublist sublist_def by (metis append.assoc)

subsection \<open>The state-transition grammar\<close>

text \<open>
  Claim C5. \<open>parseStateTransition\<close> applied to
  \<^verbatim>\<open>ACTIVE -> GRADUATED : buy() [when x >= y]\<close> returns the states \<^verbatim>\<open>ACTIVE\<close> and
  \<^verbatim>\<open>GRADUATED\<close>, the method list \<^verbatim>\<open>[buy]\<close> and the condition \<^verbatim>\<open>x >= y\<close>;
  applied to \<^verbatim>\<open>!G -> !G : buy(), sell()\<close> it returns \<^verbatim>\<open>!G\<close> twice, the methods
  \<^verbatim>\<open>[buy, sell]\<close> and no condition.
\<close>

theorem parseStateTransition_examples:
  "parseStateTransition ''ACTIVE -> GRADUATED : buy() [when x >= y]'' =
     \<lparr> fromState = ''ACTIVE'', toState = ''GRADUATED'', methods = [''buy''],
       StateTransition.condition = Some ''x >= y'' \<rparr>
   \<and> parseStateTransition ''!G -> !G : buy(), sell()'' =
     \<lparr> fromState = ''!G'', toState = ''!G'', methods = [''buy'', ''sell''],
       StateTransition.condition = None \<rparr>"
  by code_simp

subsection \<open>The CEI marker\<close>

lemma postconditions_foldl:
  "postconditions (foldl (addAnnotation m) specs anns) =
     postconditions specs @
       map (\<lambda>a. if tag a = Tag_post then mkPost m a else mkEnsures m a)
         (filter (\<lambda>a. tag a = Tag_post \<or> tag a = Tag_ensures) anns)"
proof (induction anns arbitrary: specs)
  case Nil
  show ?case by simp
next
  case (Cons a anns)
  show ?case
  proof -
    have step: "postconditions (addAnnotation m specs a) =
        postconditions specs @ (if tag a = Tag_post then [mkPost m a]
                                else if tag a = Tag_ensures then [mkEnsures m a] else [])"
      by (cases "tag a") (simp_all add: addAnnotation_def)
    show ?thesis
      by (simp add: Cons.IH step)
  qed
qed

lemma postconditions_buildMethodSpecs:
  "postconditions (buildMethodSpecs m anns f) =
     map (\<lambda>a. if tag a = Tag_post then mkPost m a else mkEnsures m a)
       (filter (\<lambda>a. tag a = Tag_post \<or> tag a = Tag_ensures) anns)"
  by (simp add: buildMethodSpecs_def postconditions_foldl)

text \<open>
  Claim C8. For every \<^verbatim>\<open>ensures\<close> annotation whose expression, trimmed and
  uppercased, equals \<^verbatim>\<open>CEI\<close>, the postcondition that \<open>buildMethodSpecs\<close> builds
  from it has \<open>isCEI\<close> set and both its \<open>oldReferences\<close> and its \<open>fieldReferences\<close>
  empty.
\<close>

theorem ensures_CEI_marker:
  assumes "ann \<in> set anns" and "tag ann = Tag_ensures"
    and "toUpperCase (trim (expression ann)) = ''CEI''"
  shows "\<exists>p \<in> set (postconditions (buildMethodSpecs m anns f)).
           SpecAnnotation.truncate p = ann \<and> PostconditionSpec.methodName p = m
           \<and> isCEI p \<and> oldReferences p = [] \<and> PostconditionSpec.fieldReferences p = []"
proof -
  have "mkEnsures m ann \<in> set (postconditions (buildMethodSpecs m anns f))"
    using assms(1,2) by (force simp: postconditions_buildMethodSpecs)
  moreover have "SpecAnnotation.truncate (mkEnsures m ann) = ann"
    using assms(2) by (simp add: mkEnsures_def Let_def SpecAnnotation.defs)
  moreover have "isCEI (mkEnsures m ann) \<and> oldReferences (mkEnsures m ann) = []
      \<and> PostconditionSpec.fieldReferences (mkEnsures m ann) = []
      \<and> PostconditionSpec.methodName (mkEnsures m ann) = m"
    using assms(3) by (simp add: mkEnsures_def Let_def SpecAnnotation.defs)
  ultimately show ?thesis by blast
qed

theorem ensures_CEI_marker_witness:
  "(let ann = \<lparr> objectId = 1, tag = Tag_ensures, expression = '' cei '', comment = None,
                SpecAnnotation.srcfile = ''f.ts'', SpecAnnotation.line = 3, column = 5 \<rparr>
    in ann \<in> set [ann] \<and> tag ann = Tag_ensures \<and> toUpperCase (trim (expression ann)) = ''CEI''
       \<and> (\<exists>p \<in> set (postconditions (buildMethodSpecs ''buy'' [ann] ''f.ts'')).
           SpecAnnotation.truncate p = ann \<and> PostconditionSpec.methodName p = ''buy''
           \<and> isCEI p \<and> oldReferences p = [] \<and> PostconditionSpec.fieldReferences p = []))"
proof -
  define ann where "ann = \<lparr> objectId = 1, tag = Tag_ensures, expression = '' cei '', comment = None,
                SpecAnnotation.srcfile = ''f.ts'', SpecAnnotation.line = 3, column = 5 \<rparr>"
  have h1: "ann \<in> set [ann]" by simp
  have h2: "tag ann = Tag_ensures" by (simp add: ann_def)
  have h3: "toUpperCase (trim (expression ann)) = ''CEI''" unfolding ann_def by code_simp
  show ?thesis
    using h1 h2 h3 ensures_CEI_marker [OF h1 h2 h3, of "''buy''" "''f.ts''"]
    unfolding ann_def [symmetric] Let_def by simp
qed

subsection \<open>The summary of a report\<close>

lemma fold_countStatus:
  "verified (fold (\<lambda>r sm. countStatus sm r) rs sm) = verified sm + length (filter (\<lambda>r. status r = VERIFIED) rs)
   \<and> unverified (fold (\<lambda>r sm. countStatus sm r) rs sm) = unverified sm + length (filter (\<lambda>r. status r = UNVERIFIED) rs)
   \<and> violated (fold (\<lambda>r sm. countStatus sm r) rs sm) = violated sm + length (filter (\<lambda>r. status r = VIOLATED) rs)
   \<and> missing (fold (\<lambda>r sm. countStatus sm r) rs sm) = missing sm + length (filter (\<lambda>r. status r = MISSING) rs)
   \<and> total (fold (\<lambda>r sm. countStatus sm r) rs sm) = total sm"
proof (induction rs arbitrary: sm)
  case Nil
  show ?case by simp
next
  case (Cons r rs)
  have step: "countStatus sm r =
      (case status r of
         VERIFIED \<Rightarrow> sm \<lparr> verified := verified sm + 1 \<rparr>
       | UNVERIFIED \<Rightarrow> sm \<lparr> unverified := unverified sm + 1 \<rparr>
       | VIOLATED \<Rightarrow> sm \<lparr> violated := violated sm + 1 \<rparr>
       | MISSING \<Rightarrow> sm \<lparr> missing := missing sm + 1 \<rparr>)"
    by (simp add: countStatus_def)
  have "fold (\<lambda>r sm. countStatus sm r) (r # rs) sm
          = fold (\<lambda>r sm. countStatus sm r) rs (countStatus sm r)"
    by simp
  then show ?case
    by (cases "status r") (simp_all add: Cons.IH step del: fold_simps)
qed

lemma length_by_status:
  "length rs = length (filter (\<lambda>r. status r = VERIFIED) rs)
             + length (filter (\<lambda>r. status r = UNVERIFIED) rs)
             + length (filter (\<lambda>r. status r = VIOLATED) rs)
             + length (filter (\<lambda>r. status r = MISSING) rs)"
proof (induction rs)
  case Nil
  show ?case by simp
next
  case (Cons r rs)
  then show ?case by (cases "status r") simp_all
qed

lemma buildReport_summary:
  "results (buildReport c rs) = rs
   \<and> total (summary (buildReport c rs)) = length rs
   \<and> verified (summary (buildReport c rs)) = length (filter (\<lambda>r. status r = VERIFIED) rs)
   \<and> unverified (summary (buildReport c rs)) = length (filter (\<lambda>r. status r = UNVERIFIED) rs)
   \<and> violated (summary (buildReport c rs)) = length (filter (\<lambda>r. status r = VIOLATED) rs)
   \<and> missing (summary (buildReport c rs)) = length (filter (\<lambda>r. status r = MISSING) rs)"
  by (simp add: buildReport_def fold_countStatus)

lemma verifyContract_is_report:
  "\<exists>rs. verifyContract contract sourceFile = buildReport contract rs"
  unfolding verifyContract_def Let_def by (auto split: option.split)

text \<open>
  Claim C10. For every report that \<open>verifyContract\<close> produces, the \<open>total\<close> of the
  summary equals the length of the result list and equals the sum of the four counters,
  and each counter equals the number of results that carry its status.
\<close>

theorem verifyContract_summary_counts:
  "total (summary (verifyContract contract sourceFile))
     = length (results (verifyContract contract sourceFile))
   \<and> total (summary (verifyContract contract sourceFile))
     = verified (summary (verifyContract contract sourceFile))
       + unverified (summary (verifyContract contract sourceFile))
       + violated (summary (verifyContract contract sourceFile))
       + missing (summary (verifyContract contract sourceFile))
   \<and> verified (summary (verifyContract contract sourceFile))
     = length (filter (\<lambda>r. status r = VERIFIED) (results (verifyContract contract sourceFile)))
   \<and> unverified (summary (verifyContract contract sourceFile))
     = length (filter (\<lambda>r. status r = UNVERIFIED) (results (verifyContract contract sourceFile)))
   \<and> violated (summary (verifyContract contract sourceFile))
     = length (filter (\<lambda>r. status r = VIOLATED) (results (verifyContract contract sourceFile)))
   \<and> missing (summary (verifyContract contract sourceFile))
     = length (filter (\<lambda>r. status r = MISSING) (results (verifyContract contract sourceFile)))"
proof -
  obtain rs where r: "verifyContract contract sourceFile = buildReport contract rs"
    using verifyContract_is_report by blast
  show ?thesis
    unfolding r using buildReport_summary [of contract rs] length_by_status [of rs] by simp
qed

subsection \<open>A class that is not in the source file\<close>

lemma verifyContract_class_not_found:
  assumes "find (\<lambda>c. getClassName c = className contract) (findClassDeclarations sourceFile) = None"
  shows "results (verifyContract contract sourceFile)
           = map (\<lambda>i. makeResult i MISSING) (invariants contract)"
  using assms by (simp add: verifyContract_def buildReport_def)

text \<open>
  Claim C1 says that a contract whose class name matches no class declaration gets one
  \<open>MISSING\<close> result per attached spec. The verifier turns only the invariants into
  \<open>MISSING\<close> results, as \<open>verifyContract_class_not_found\<close> shows. For the specs of
  \<^verbatim>\<open>Vault\<close> against a file whose one class is \<^verbatim>\<open>Token\<close>, two specs are attached
  and the result list is empty.
\<close>

theorem verifyContract_missing_class_drops_specs:
  "find (\<lambda>c. getClassName c = className vaultSpecs) (findClassDeclarations tokenFile) = None
   \<and> attachedSpecCount vaultSpecs = 2
   \<and> results (verifyContract vaultSpecs tokenFile) = []"
  by code_simp

subsection \<open>Checks, effects, interactions\<close>

lemma ceiViolations_nonempty:
  "ceiViolations cs ws \<noteq> [] \<longleftrightarrow>
     (\<exists>c \<in> set cs. \<exists>w \<in> set ws. CallSite.pos c < StateWrite.pos w)"
  by (auto simp: ceiViolations_def filter_empty_conv)

text \<open>
  Claim C2. For every \<^verbatim>\<open>ensures CEI\<close> spec on a resolved method,
  \<open>verifyPostcondition\<close> hands the spec to \<open>verifyCEI\<close>, and \<open>verifyCEI\<close> returns
  \<open>VERIFIED\<close> if the method has no external-call site or no state-write site; otherwise
  it returns \<open>VIOLATED\<close> if and only if some state write starts at a greater source
  position than some external call, and \<open>VERIFIED\<close> otherwise.
\<close>

theorem ensures_CEI_order:
  assumes "isCEI postSpec"
  shows "verifyPostcondition postSpec method storedFields
           = verifyCEI postSpec method storedFields
         \<and> status (verifyCEI postSpec method storedFields) =
           (if findBlockchainCalls method = [] \<or> findStateWrites method storedFields = []
            then VERIFIED
            else if \<exists>call \<in> set (findBlockchainCalls method).
                      \<exists>write \<in> set (findStateWrites method storedFields).
                        CallSite.pos call < StateWrite.pos write
            then VIOLATED
            else VERIFIED)"
  using assms
  by (simp add: verifyPostcondition_def verifyCEI_def Let_def ceiViolations_nonempty)

theorem ensures_CEI_order_witness:
  "isCEI ceiSpec
   \<and> findBlockchainCalls callThenWrite \<noteq> []
   \<and> findStateWrites callThenWrite [''total''] \<noteq> []
   \<and> status (verifyPostcondition ceiSpec callThenWrite [''total'']) = VIOLATED
   \<and> status (verifyPostcondition ceiSpec writeThenCall [''total'']) = VERIFIED
   \<and> status (verifyPostcondition ceiSpec emptyMethod [''total'']) = VERIFIED"
proof -
  have h: "isCEI ceiSpec" by code_simp
  have c1: "findBlockchainCalls callThenWrite
              = [\<lparr> CallSite.pos = 8, nodeText = ''Blockchain.call(dest, data)'' \<rparr>]"
    by code_simp
  have w1: "findStateWrites callThenWrite [''total'']
              = [\<lparr> StateWrite.pos = 37, field = ''total'', nodeText = ''this.total.value'' \<rparr>]"
    by code_simp
  have c2: "findBlockchainCalls writeThenCall
              = [\<lparr> CallSite.pos = 35, nodeText = ''Blockchain.call(dest, data)'' \<rparr>]"
    by code_simp
  have w2: "findStateWrites writeThenCall [''total'']
              = [\<lparr> StateWrite.pos = 8, field = ''total'', nodeText = ''this.total.value'' \<rparr>]"
    by code_simp
  have c3: "findBlockchainCalls emptyMethod = []" by code_simp
  show ?thesis
    using h ensures_CEI_order [OF h, of callThenWrite "[''total'']"]
      ensures_CEI_order [OF h, of writeThenCall "[''total'']"]
      ensures_CEI_order [OF h, of emptyMethod "[''total'']"]
    by (simp add: c1 w1 c2 w2 c3)
qed

subsection \<open>Preconditions\<close>

text \<open>
  Claim C3 says that term matching never yields \<open>VERIFIED\<close>. For the precondition
  \<^verbatim>\<open>amount > 0\<close> on a method whose guard tests \<^verbatim>\<open>amount == 0\<close>, the expression
  names no guard helper, the guard shares the key term \<^verbatim>\<open>amount\<close>, and the result
  is \<open>VERIFIED\<close>.
\<close>

theorem verifyPrecondition_fuzzy_verified:
  "status (verifyPrecondition amountPositive guardedMint) = VERIFIED
   \<and> \<not> str_includes (trim (expression amountPositive)) ''ensureOwner''
   \<and> \<not> str_includes (trim (expression amountPositive)) ''onlyDeployer''
   \<and> \<not> str_includes (trim (expression amountPositive)) ''ensureActive''
   \<and> list_ex (guardMatches (extractKeyTerms (trim (expression amountPositive))))
        (findGuardChecks guardedMint)"
  by code_simp

text \<open>
  Claim C3, amended. \<open>verifyPrecondition\<close> runs its guard-helper checks first: when the
  expression names \<^verbatim>\<open>ensureOwner\<close> or \<^verbatim>\<open>onlyDeployer\<close>, or else
  \<^verbatim>\<open>ensureActive\<close>, the result is \<open>VERIFIED\<close> exactly when the body holds the helper.
  Otherwise the result is \<open>VERIFIED\<close> exactly when the status shortcut does not apply and
  some guard of the method shares at least one and at least half of the key terms of the
  expression. The fallback on field references and the revert marker never yields
  \<open>VERIFIED\<close>.
\<close>

theorem verifyPrecondition_verified_iff:
  "status (verifyPrecondition preSpec method) = VERIFIED \<longleftrightarrow>
     (if str_includes (trim (expression preSpec)) ''ensureOwner''
         \<or> str_includes (trim (expression preSpec)) ''onlyDeployer''
      then str_includes (getMethodBodyText method) ''ensureOwner''
           \<or> str_includes (getMethodBodyText method) ''onlyDeployer''
      else if str_includes (trim (expression preSpec)) ''ensureActive''
      then str_includes (getMethodBodyText method) ''ensureActive''
      else if (str_includes (trim (expression preSpec)) ''status''
               \<or> str_includes (trim (expression preSpec)) ''STATUS''
               \<or> str_includes (trim (expression preSpec)) ''state'')
              \<and> list_ex (\<lambda>helper. str_includes (getMethodBodyText method) helper) guardHelpers
      then False
      else list_ex (guardMatches (extractKeyTerms (trim (expression preSpec))))
             (findGuardChecks method))"
  by (simp add: verifyPrecondition_def Let_def)

theorem verifyPrecondition_verified_iff_witness:
  "status (verifyPrecondition amountPositive guardedMint) = VERIFIED
   \<and> list_ex (guardMatches (extractKeyTerms (trim (expression amountPositive))))
        (findGuardChecks guardedMint)"
proof -
  have e: "trim (expression amountPositive) = ''amount > 0''" by code_simp
  have n: "\<not> str_includes ''amount > 0'' ''ensureOwner''"
    "\<not> str_includes ''amount > 0'' ''onlyDeployer''"
    "\<not> str_includes ''amount > 0'' ''ensureActive''"
    "\<not> str_includes ''amount > 0'' ''status''"
    "\<not> str_includes ''amount > 0'' ''STATUS''"
    "\<not> str_includes ''amount > 0'' ''state''"
    by code_simp+
  have g: "list_ex (guardMatches (extractKeyTerms ''amount > 0'')) (findGuardChecks guardedMint)"
    by code_simp
  show ?thesis
    using verifyPrecondition_verified_iff [of amountPositive guardedMint] g n
    by (simp add: e)
qed

subsection \<open>Invariants\<close>

lemma invariantAt_status: "r \<in> set (invariantAt invariant am nm) \<Longrightarrow> status r = UNVERIFIED"
  by (auto simp: invariantAt_def Let_def split: option.splits if_splits)

text \<open>
  Claim C4. \<open>verifyInvariant\<close> never produces a \<open>VIOLATED\<close> result, and an invariant
  whose expression holds no field-access pattern (its \<open>fieldReferences\<close> are empty) gives
  exactly one result, which is \<open>UNVERIFIED\<close>.
\<close>

theorem verifyInvariant_never_violated:
  "(\<forall>r \<in> set (verifyInvariant invariant classDecl allMethods). status r \<noteq> VIOLATED)
   \<and> (InvariantSpec.fieldReferences invariant = [] \<longrightarrow>
        map status (verifyInvariant invariant classDecl allMethods) = [UNVERIFIED])"
  by (auto simp: verifyInvariant_def Let_def dest: invariantAt_status)

theorem verifyInvariant_never_violated_witness:
  "InvariantSpec.fieldReferences plainInvariant = []
   \<and> map status (verifyInvariant plainInvariant tokenFile [(''open'', emptyMethod)]) = [UNVERIFIED]
   \<and> list_all (\<lambda>r. status r \<noteq> VIOLATED)
        (verifyInvariant plainInvariant tokenFile [(''open'', emptyMethod)])"
proof -
  have h: "InvariantSpec.fieldReferences plainInvariant = []" by code_simp
  show ?thesis
    using h verifyInvariant_never_violated [of plainInvariant tokenFile "[(''open'', emptyMethod)]"]
    by (simp add: list_all_iff)
qed

subsection \<open>Access\<close>

text \<open>
  Claim C6. For every access spec whose level is \<^verbatim>\<open>deployer-only\<close> (compared in
  lower case, as the verifier does), \<open>verifyAccess\<close> returns \<open>VERIFIED\<close> if and only if
  the body of the method with its comments stripped holds the name \<^verbatim>\<open>onlyDeployer\<close>,
  or holds both \<^verbatim>\<open>Blockchain.tx.sender\<close> and one of \<^verbatim>\<open>deployer\<close> and
  \<^verbatim>\<open>owner\<close>; otherwise it returns \<open>VIOLATED\<close>.
\<close>

theorem verifyAccess_deployer_only:
  assumes "toLowerCase (level accessSpec) = ''deployer-only''"
  shows "status (verifyAccess accessSpec method) =
           (if str_includes (stripComments (getMethodBodyText method)) ''onlyDeployer''
               \<or> (str_includes (stripComments (getMethodBodyText method)) ''Blockchain.tx.sender''
                   \<and> (str_includes (stripComments (getMethodBodyText method)) ''deployer''
                        \<or> str_includes (stripComments (getMethodBodyText method)) ''owner''))
            then VERIFIED else VIOLATED)"
proof -
  have "str_includes b ''this.onlyDeployer'' \<Longrightarrow> str_includes b ''onlyDeployer''" for b
    using str_includes_append_right [of b "''this.''" "''onlyDeployer''"] by simp
  then show ?thesis
    using assms by (auto simp: verifyAccess_def Let_def)
qed

theorem verifyAccess_deployer_only_witness:
  "toLowerCase (level deployerOnly) = ''deployer-only''
   \<and> str_includes (stripComments (getMethodBodyText guardedPause)) ''onlyDeployer''
   \<and> status (verifyAccess deployerOnly guardedPause) = VERIFIED
   \<and> status (verifyAccess deployerOnly emptyMethod) = VIOLATED"
proof -
  have h: "toLowerCase (level deployerOnly) = ''deployer-only''" by code_simp
  have b1: "str_includes (stripComments (getMethodBodyText guardedPause)) ''onlyDeployer''"
    by code_simp
  have b2: "stripComments (getMethodBodyText emptyMethod) = ''{ }''" by code_simp
  have b3: "\<not> str_includes ''{ }'' ''onlyDeployer''" "\<not> str_includes ''{ }'' ''Blockchain.tx.sender''"
    by code_simp+
  show ?thesis
    using h b1 b3 verifyAccess_deployer_only [OF h, of guardedPause]
      verifyAccess_deployer_only [OF h, of emptyMethod]
    by (simp add: b2)
qed

subsection \<open>Postconditions\<close>

text \<open>
  Claim C7. For every postcondition that is not the CEI marker, \<open>verifyPostcondition\<close>
  never returns \<open>VERIFIED\<close>. Its checks run in this order: a referenced field that the
  body writes neither as \<^verbatim>\<open>this.F.value\<close> nor as \<^verbatim>\<open>this.F.set\<close> gives
  \<open>UNVERIFIED\<close>; else an expression that mentions \<^verbatim>\<open>return\<close> on a body with no
  \<^verbatim>\<open>return\<close> gives \<open>VIOLATED\<close>; else any \<^verbatim>\<open>old()\<close> reference gives
  \<open>UNVERIFIED\<close>; and what is left is \<open>UNVERIFIED\<close> too.
\<close>

theorem verifyPostcondition_never_verified:
  assumes "\<not> isCEI postSpec"
  shows "status (verifyPostcondition postSpec method storedFields) \<noteq> VERIFIED
    \<and> status (verifyPostcondition postSpec method storedFields) =
        (if \<exists>f \<in> set (PostconditionSpec.fieldReferences postSpec).
              \<not> str_includes (getMethodBodyText method) (''this.'' @ f @ ''.value'')
              \<and> \<not> str_includes (getMethodBodyText method) (''this.'' @ f @ ''.set'')
         then UNVERIFIED
         else if str_includes (expression postSpec) ''return''
                 \<and> \<not> str_includes (getMethodBodyText method) ''return''
         then VIOLATED
         else if oldReferences postSpec \<noteq> [] then UNVERIFIED
         else UNVERIFIED)"
proof -
  have u: "0 < length (unmodifiedFields b fs) \<longleftrightarrow>
             (\<exists>f \<in> set fs. \<not> str_includes b (''this.'' @ f @ ''.value'')
                            \<and> \<not> str_includes b (''this.'' @ f @ ''.set''))" for b fs
    by (auto simp: unmodifiedFields_def filter_empty_conv)
  have e: "0 < length (unmodifiedFields b fs) \<Longrightarrow> 0 < length fs" for b fs
    by (auto simp: unmodifiedFields_def)
  show ?thesis
    using assms e [of "getMethodBodyText method" "PostconditionSpec.fieldReferences postSpec"]
    by (auto simp: verifyPostcondition_def Let_def u simp del: length_greater_0_conv)
qed

theorem verifyPostcondition_never_verified_witness:
  "\<not> isCEI totalGrows \<and> \<not> isCEI returnsPositive
   \<and> status (verifyPostcondition totalGrows emptyMethod []) = UNVERIFIED
   \<and> status (verifyPostcondition returnsPositive emptyMethod []) = VIOLATED
   \<and> status (verifyPostcondition totalGrows callThenWrite []) = UNVERIFIED"
proof -
  have h1: "\<not> isCEI totalGrows" by code_simp
  have h2: "\<not> isCEI returnsPositive" by code_simp
  have f1: "PostconditionSpec.fieldReferences totalGrows = [''total'']" by code_simp
  have f2: "PostconditionSpec.fieldReferences returnsPositive = []" by code_simp
  have o1: "oldReferences totalGrows \<noteq> []" by code_simp
  have e2: "str_includes (expression returnsPositive) ''return''" by code_simp
  have b1: "\<not> str_includes (getMethodBodyText emptyMethod) ''this.total.value''"
    "\<not> str_includes (getMethodBodyText emptyMethod) ''this.total.set''"
    "\<not> str_includes (getMethodBodyText emptyMethod) ''return''"
    "\<not> str_includes (expression totalGrows) ''return''"
    "str_includes (getMethodBodyText callThenWrite) ''this.total.value''"
    by code_simp+
  show ?thesis
    using h1 h2 o1 e2 b1
      verifyPostcondition_never_verified [OF h1, of emptyMethod "[]"]
      verifyPostcondition_never_verified [OF h2, of emptyMethod "[]"]
      verifyPostcondition_never_verified [OF h1, of callThenWrite "[]"]
    by (simp add: f1 f2 split: if_splits)
qed

end
